theory Spec2Isabelle
  imports Main
begin

section \<open>Python values, exceptions and the interpreter's own texts\<close>

text \<open>
  The bot polls one HTTP endpoint, validates the decoded JSON answer, turns the first
  homework record into a message and sends it to a Telegram chat (\<^verbatim>\<open>homework.py\<close>).
  A decoded JSON document is a \<open>pyval\<close>. A \<^verbatim>\<open>dict\<close> is an association list with string keys
  read with \<open>map_of\<close> (the first binding of a key is the dict's binding); a \<^verbatim>\<open>float\<close> is kept
  as the text of its literal, since the program never computes with one. A Python \<^verbatim>\<open>str\<close> is a
  \<open>string\<close> holding its UTF-8 bytes: the program only concatenates and compares strings.
\<close>

datatype pyval =
    PNone
  | PBool bool
  | PInt int
  | PFloat string
  | PStr string
  | PList "pyval list"
  | PDict "(string \<times> pyval) list"

text \<open>
  Modelled from the spec: the module \<^verbatim>\<open>exceptions\<close>, which declares
  \<^verbatim>\<open>IncorrectResponseException\<close>, \<^verbatim>\<open>UnknownStatusException\<close>, \<^verbatim>\<open>TelegramAPIException\<close> and
  \<^verbatim>\<open>HomeworkMissingException\<close>, is not among the sources. The four classes are taken as plain
  subclasses of \<^verbatim>\<open>Exception\<close> (the loop's \<^verbatim>\<open>except Exception\<close> catches them) whose \<^verbatim>\<open>str\<close> is
  the message they were built with. The other constructors are classes of Python and of
  \<^verbatim>\<open>requests\<close> (\<open>HTTPError\<close> is \<^verbatim>\<open>requests.HTTPError\<close>); \<open>Subclass n b\<close> is any further class,
  named \<open>n\<close>, whose base class is \<open>b\<close>.
\<close>

datatype exc_class =
    Exception
  | HTTPError
  | ConnectionRefusedError
  | AttributeError
  | TypeError
  | IncorrectResponseException
  | UnknownStatusException
  | TelegramAPIException
  | HomeworkMissingException
  | Subclass string exc_class

text \<open>An exception object: its dynamic type and what \<^verbatim>\<open>str\<close> gives for it.\<close>

record exn =
  exc_type :: exc_class
  exc_str :: string

definition exc :: "exc_class \<Rightarrow> string \<Rightarrow> exn" where
  "exc c s = \<lparr>exc_type = c, exc_str = s\<rparr>"

fun issubclass :: "exc_class \<Rightarrow> exc_class \<Rightarrow> bool" where
  "issubclass (Subclass n b) d = (Subclass n b = d \<or> issubclass b d)"
| "issubclass c d = (c = d \<or> d = Exception)"

text \<open>
  Texts that the Python interpreter produces and the program only passes on: the rendering
  of a value that is neither a \<^verbatim>\<open>str\<close>, \<^verbatim>\<open>None\<close> nor a \<^verbatim>\<open>bool\<close> inside an f-string, the text of the
  \<^verbatim>\<open>AttributeError\<close> for a value without a \<^verbatim>\<open>get\<close> method, and the text of the \<^verbatim>\<open>TypeError\<close> for
  an unhashable dictionary key. They are parameters of the model.
\<close>

record builtins =
  format_value :: "pyval \<Rightarrow> string"
  no_attribute_get :: "pyval \<Rightarrow> string"
  unhashable_type :: "pyval \<Rightarrow> string"

definition py_str :: "builtins \<Rightarrow> pyval \<Rightarrow> string" where
  "py_str bi v =
     (case v of
        PStr s \<Rightarrow> s
      | PNone \<Rightarrow> ''None''
      | PBool b \<Rightarrow> (if b then ''True'' else ''False'')
      | _ \<Rightarrow> format_value bi v)"

text \<open>\<^verbatim>\<open>d.get(k)\<close>: the value bound to \<open>k\<close>, \<^verbatim>\<open>None\<close> when the key is absent.\<close>

definition dict_get :: "(string \<times> pyval) list \<Rightarrow> string \<Rightarrow> pyval" where
  "dict_get d k = (case map_of d k of None \<Rightarrow> PNone | Some v \<Rightarrow> v)"

definition hashable :: "pyval \<Rightarrow> bool" where
  "hashable v = (case v of PList _ \<Rightarrow> False | PDict _ \<Rightarrow> False | _ \<Rightarrow> True)"

section \<open>Constants of the module\<close>

text \<open>
  The string literals of the source are Russian sentences; each constant below is the
  UTF-8 encoding of one of them, one word per bracket. \<open>verdict_approved\<close>,
  \<open>verdict_reviewing\<close> and \<open>verdict_rejected\<close> are the values of \<^verbatim>\<open>HOMEWORK_VERDICTS\<close> (lines 30
  to 32); \<open>send_failed_text\<close> is the prefix of the f-string at line 59;
  \<open>unavailable_text_1\<close> and \<open>unavailable_text_2\<close> surround the endpoint at line 80;
  \<open>request_failed_text\<close> is the prefix at line 84; \<open>bad_response_text\<close> the literal at line
  105; \<open>name_missing_text\<close> the prefix at line 123; \<open>unknown_status_text\<close> the prefix at line
  126; \<open>status_changed_text\<close> the words at line 130 before the opening quotation mark;
  \<open>fatal_text\<close> the argument of \<^verbatim>\<open>SystemExit\<close> at line 167.
\<close>

definition ENDPOINT :: string where
  "ENDPOINT = ''https://practicum.yandex.ru/api/user_api/homework_statuses/''"

definition RETRY_PERIOD :: int where
  "RETRY_PERIOD = 600"

definition ERROR_CACHE_LIFETIME :: int where
  "ERROR_CACHE_LIFETIME = 60 * 60 * 24"

definition verdict_approved :: string where
  "verdict_approved =
     [CHR 0xD0, CHR 0xA0, CHR 0xD0, CHR 0xB0, CHR 0xD0, CHR 0xB1, CHR 0xD0, CHR 0xBE,
      CHR 0xD1, CHR 0x82, CHR 0xD0, CHR 0xB0]
     @ '' ''
     @ [CHR 0xD0, CHR 0xBF, CHR 0xD1, CHR 0x80, CHR 0xD0, CHR 0xBE, CHR 0xD0, CHR 0xB2,
      CHR 0xD0, CHR 0xB5, CHR 0xD1, CHR 0x80, CHR 0xD0, CHR 0xB5, CHR 0xD0, CHR 0xBD,
      CHR 0xD0, CHR 0xB0]
     @ '': ''
     @ [CHR 0xD1, CHR 0x80, CHR 0xD0, CHR 0xB5, CHR 0xD0, CHR 0xB2, CHR 0xD1, CHR 0x8C,
      CHR 0xD1, CHR 0x8E, CHR 0xD0, CHR 0xB5, CHR 0xD1, CHR 0x80, CHR 0xD1, CHR 0x83]
     @ '' ''
     @ [CHR 0xD0, CHR 0xB2, CHR 0xD1, CHR 0x81, CHR 0xD1, CHR 0x91]
     @ '' ''
     @ [CHR 0xD0, CHR 0xBF, CHR 0xD0, CHR 0xBE, CHR 0xD0, CHR 0xBD, CHR 0xD1, CHR 0x80,
      CHR 0xD0, CHR 0xB0, CHR 0xD0, CHR 0xB2, CHR 0xD0, CHR 0xB8, CHR 0xD0, CHR 0xBB,
      CHR 0xD0, CHR 0xBE, CHR 0xD1, CHR 0x81, CHR 0xD1, CHR 0x8C]
     @ ''. ''
     @ [CHR 0xD0, CHR 0xA3, CHR 0xD1, CHR 0x80, CHR 0xD0, CHR 0xB0]
     @ ''!''"

definition verdict_reviewing :: string where
  "verdict_reviewing =
     [CHR 0xD0, CHR 0xA0, CHR 0xD0, CHR 0xB0, CHR 0xD0, CHR 0xB1, CHR 0xD0, CHR 0xBE,
      CHR 0xD1, CHR 0x82, CHR 0xD0, CHR 0xB0]
     @ '' ''
     @ [CHR 0xD0, CHR 0xB2, CHR 0xD0, CHR 0xB7, CHR 0xD1, CHR 0x8F, CHR 0xD1, CHR 0x82,
      CHR 0xD0, CHR 0xB0]
     @ '' ''
     @ [CHR 0xD0, CHR 0xBD, CHR 0xD0, CHR 0xB0]
     @ '' ''
     @ [CHR 0xD0, CHR 0xBF, CHR 0xD1, CHR 0x80, CHR 0xD0, CHR 0xBE, CHR 0xD0, CHR 0xB2,
      CHR 0xD0, CHR 0xB5, CHR 0xD1, CHR 0x80, CHR 0xD0, CHR 0xBA, CHR 0xD1, CHR 0x83]
     @ '' ''
     @ [CHR 0xD1, CHR 0x80, CHR 0xD0, CHR 0xB5, CHR 0xD0, CHR 0xB2, CHR 0xD1, CHR 0x8C,
      CHR 0xD1, CHR 0x8E, CHR 0xD0, CHR 0xB5, CHR 0xD1, CHR 0x80, CHR 0xD0, CHR 0xBE,
      CHR 0xD0, CHR 0xBC]
     @ ''.''"

definition verdict_rejected :: string where
  "verdict_rejected =
     [CHR 0xD0, CHR 0xA0, CHR 0xD0, CHR 0xB0, CHR 0xD0, CHR 0xB1, CHR 0xD0, CHR 0xBE,
      CHR 0xD1, CHR 0x82, CHR 0xD0, CHR 0xB0]
     @ '' ''
     @ [CHR 0xD0, CHR 0xBF, CHR 0xD1, CHR 0x80, CHR 0xD0, CHR 0xBE, CHR 0xD0, CHR 0xB2,
      CHR 0xD0, CHR 0xB5, CHR 0xD1, CHR 0x80, CHR 0xD0, CHR 0xB5, CHR 0xD0, CHR 0xBD,
      CHR 0xD0, CHR 0xB0]
     @ '': ''
     @ [CHR 0xD1, CHR 0x83]
     @ '' ''
     @ [CHR 0xD1, CHR 0x80, CHR 0xD0, CHR 0xB5, CHR 0xD0, CHR 0xB2, CHR 0xD1, CHR 0x8C,
      CHR 0xD1, CHR 0x8E, CHR 0xD0, CHR 0xB5, CHR 0xD1, CHR 0x80, CHR 0xD0, CHR 0xB0]
     @ '' ''
     @ [CHR 0xD0, CHR 0xB5, CHR 0xD1, CHR 0x81, CHR 0xD1, CHR 0x82, CHR 0xD1, CHR 0x8C]
     @ '' ''
     @ [CHR 0xD0, CHR 0xB7, CHR 0xD0, CHR 0xB0, CHR 0xD0, CHR 0xBC, CHR 0xD0, CHR 0xB5,
      CHR 0xD1, CHR 0x87, CHR 0xD0, CHR 0xB0, CHR 0xD0, CHR 0xBD, CHR 0xD0, CHR 0xB8,
      CHR 0xD1, CHR 0x8F]
     @ ''.''"

definition send_failed_text :: string where
  "send_failed_text =
     [CHR 0xD0, CHR 0x9E, CHR 0xD1, CHR 0x88, CHR 0xD0, CHR 0xB8, CHR 0xD0, CHR 0xB1,
      CHR 0xD0, CHR 0xBA, CHR 0xD0, CHR 0xB0]
     @ '' ''
     @ [CHR 0xD0, CHR 0xBF, CHR 0xD1, CHR 0x80, CHR 0xD0, CHR 0xB8]
     @ '' ''
     @ [CHR 0xD0, CHR 0xBE, CHR 0xD1, CHR 0x82, CHR 0xD0, CHR 0xBF, CHR 0xD1, CHR 0x80,
      CHR 0xD0, CHR 0xB0, CHR 0xD0, CHR 0xB2, CHR 0xD0, CHR 0xBA, CHR 0xD0, CHR 0xB5]
     @ '' ''
     @ [CHR 0xD1, CHR 0x81, CHR 0xD0, CHR 0xBE, CHR 0xD0, CHR 0xBE, CHR 0xD0, CHR 0xB1,
      CHR 0xD1, CHR 0x89, CHR 0xD0, CHR 0xB5, CHR 0xD0, CHR 0xBD, CHR 0xD0, CHR 0xB8,
      CHR 0xD1, CHR 0x8F]
     @ '': ''"

definition unavailable_text_1 :: string where
  "unavailable_text_1 =
     [CHR 0xD0, CHR 0xA0, CHR 0xD0, CHR 0xB5, CHR 0xD1, CHR 0x81, CHR 0xD1, CHR 0x83,
      CHR 0xD1, CHR 0x80, CHR 0xD1, CHR 0x81]
     @ '' ''"

definition unavailable_text_2 :: string where
  "unavailable_text_2 =
     '' ''
     @ [CHR 0xD0, CHR 0xBD, CHR 0xD0, CHR 0xB5, CHR 0xD0, CHR 0xB4, CHR 0xD0, CHR 0xBE,
      CHR 0xD1, CHR 0x81, CHR 0xD1, CHR 0x82, CHR 0xD1, CHR 0x83, CHR 0xD0, CHR 0xBF,
      CHR 0xD0, CHR 0xB5, CHR 0xD0, CHR 0xBD]
     @ '': ''"

definition request_failed_text :: string where
  "request_failed_text =
     [CHR 0xD0, CHR 0x9E, CHR 0xD1, CHR 0x88, CHR 0xD0, CHR 0xB8, CHR 0xD0, CHR 0xB1,
      CHR 0xD0, CHR 0xBA, CHR 0xD0, CHR 0xB0]
     @ '' ''
     @ [CHR 0xD0, CHR 0xBF, CHR 0xD1, CHR 0x80, CHR 0xD0, CHR 0xB8]
     @ '' ''
     @ [CHR 0xD0, CHR 0xB7, CHR 0xD0, CHR 0xB0, CHR 0xD0, CHR 0xBF, CHR 0xD1, CHR 0x80,
      CHR 0xD0, CHR 0xBE, CHR 0xD1, CHR 0x81, CHR 0xD0, CHR 0xB5]
     @ '' ''
     @ [CHR 0xD0, CHR 0xBA]
     @ '' API: ''"

definition bad_response_text :: string where
  "bad_response_text =
     [CHR 0xD0, CHR 0x9E, CHR 0xD1, CHR 0x82, CHR 0xD0, CHR 0xB2, CHR 0xD0, CHR 0xB5,
      CHR 0xD1, CHR 0x82]
     @ '' API ''
     @ [CHR 0xD0, CHR 0xBD, CHR 0xD0, CHR 0xB5]
     @ '' ''
     @ [CHR 0xD1, CHR 0x81, CHR 0xD0, CHR 0xBE, CHR 0xD0, CHR 0xBE, CHR 0xD1, CHR 0x82,
      CHR 0xD0, CHR 0xB2, CHR 0xD0, CHR 0xB5, CHR 0xD1, CHR 0x82, CHR 0xD1, CHR 0x81,
      CHR 0xD1, CHR 0x82, CHR 0xD0, CHR 0xB2, CHR 0xD1, CHR 0x83, CHR 0xD0, CHR 0xB5,
      CHR 0xD1, CHR 0x82]
     @ '' ''
     @ [CHR 0xD0, CHR 0xBE, CHR 0xD0, CHR 0xB6, CHR 0xD0, CHR 0xB8, CHR 0xD0, CHR 0xB4,
      CHR 0xD0, CHR 0xB0, CHR 0xD0, CHR 0xB5, CHR 0xD0, CHR 0xBC, CHR 0xD0, CHR 0xBE,
      CHR 0xD0, CHR 0xBC, CHR 0xD1, CHR 0x83]
     @ ''!''"

definition name_missing_text :: string where
  "name_missing_text =
     ''`homework_name` ''
     @ [CHR 0xD0, CHR 0xBE, CHR 0xD1, CHR 0x82, CHR 0xD1, CHR 0x81, CHR 0xD1, CHR 0x83,
      CHR 0xD1, CHR 0x82, CHR 0xD1, CHR 0x81, CHR 0xD1, CHR 0x82, CHR 0xD0, CHR 0xB2,
      CHR 0xD1, CHR 0x83, CHR 0xD0, CHR 0xB5, CHR 0xD1, CHR 0x82]
     @ '': ''"

definition unknown_status_text :: string where
  "unknown_status_text =
     [CHR 0xD0, CHR 0x9F, CHR 0xD0, CHR 0xBE, CHR 0xD0, CHR 0xBB, CHR 0xD1, CHR 0x83,
      CHR 0xD1, CHR 0x87, CHR 0xD0, CHR 0xB5, CHR 0xD0, CHR 0xBD]
     @ '' ''
     @ [CHR 0xD0, CHR 0xBD, CHR 0xD0, CHR 0xB5, CHR 0xD0, CHR 0xB8, CHR 0xD0, CHR 0xB7,
      CHR 0xD0, CHR 0xB2, CHR 0xD0, CHR 0xB5, CHR 0xD1, CHR 0x81, CHR 0xD1, CHR 0x82,
      CHR 0xD0, CHR 0xBD, CHR 0xD1, CHR 0x8B, CHR 0xD0, CHR 0xB9]
     @ '' ''
     @ [CHR 0xD1, CHR 0x81, CHR 0xD1, CHR 0x82, CHR 0xD0, CHR 0xB0, CHR 0xD1, CHR 0x82,
      CHR 0xD1, CHR 0x83, CHR 0xD1, CHR 0x81]
     @ '' ''
     @ [CHR 0xD0, CHR 0xB4, CHR 0xD0, CHR 0xBE, CHR 0xD0, CHR 0xBC, CHR 0xD0, CHR 0xB0,
      CHR 0xD1, CHR 0x88, CHR 0xD0, CHR 0xBD, CHR 0xD0, CHR 0xB5, CHR 0xD0, CHR 0xB9]
     @ '' ''
     @ [CHR 0xD1, CHR 0x80, CHR 0xD0, CHR 0xB0, CHR 0xD0, CHR 0xB1, CHR 0xD0, CHR 0xBE,
      CHR 0xD1, CHR 0x82, CHR 0xD1, CHR 0x8B]
     @ '': ''"

definition status_changed_text :: string where
  "status_changed_text =
     [CHR 0xD0, CHR 0x98, CHR 0xD0, CHR 0xB7, CHR 0xD0, CHR 0xBC, CHR 0xD0, CHR 0xB5,
      CHR 0xD0, CHR 0xBD, CHR 0xD0, CHR 0xB8, CHR 0xD0, CHR 0xBB, CHR 0xD1, CHR 0x81,
      CHR 0xD1, CHR 0x8F]
     @ '' ''
     @ [CHR 0xD1, CHR 0x81, CHR 0xD1, CHR 0x82, CHR 0xD0, CHR 0xB0, CHR 0xD1, CHR 0x82,
      CHR 0xD1, CHR 0x83, CHR 0xD1, CHR 0x81]
     @ '' ''
     @ [CHR 0xD0, CHR 0xBF, CHR 0xD1, CHR 0x80, CHR 0xD0, CHR 0xBE, CHR 0xD0, CHR 0xB2,
      CHR 0xD0, CHR 0xB5, CHR 0xD1, CHR 0x80, CHR 0xD0, CHR 0xBA, CHR 0xD0, CHR 0xB8]
     @ '' ''
     @ [CHR 0xD1, CHR 0x80, CHR 0xD0, CHR 0xB0, CHR 0xD0, CHR 0xB1, CHR 0xD0, CHR 0xBE,
      CHR 0xD1, CHR 0x82, CHR 0xD1, CHR 0x8B]
     @ '' ''"


definition fatal_text :: string where
  "fatal_text =
     [CHR 0xD0, CHR 0x9A, CHR 0xD1, CHR 0x80, CHR 0xD0, CHR 0xB8, CHR 0xD1, CHR 0x82,
      CHR 0xD0, CHR 0xB8, CHR 0xD1, CHR 0x87, CHR 0xD0, CHR 0xB5, CHR 0xD1, CHR 0x81,
      CHR 0xD0, CHR 0xBA, CHR 0xD0, CHR 0xB0, CHR 0xD1, CHR 0x8F]
     @ '' ''
     @ [CHR 0xD0, CHR 0xBE, CHR 0xD1, CHR 0x88, CHR 0xD0, CHR 0xB8, CHR 0xD0, CHR 0xB1,
      CHR 0xD0, CHR 0xBA, CHR 0xD0, CHR 0xB0]
     @ '', ''
     @ [CHR 0xD0, CHR 0xB1, CHR 0xD0, CHR 0xBE, CHR 0xD1, CHR 0x82]
     @ '' ''
     @ [CHR 0xD0, CHR 0xBE, CHR 0xD1, CHR 0x81, CHR 0xD1, CHR 0x82, CHR 0xD0, CHR 0xB0,
      CHR 0xD0, CHR 0xBD, CHR 0xD0, CHR 0xBE, CHR 0xD0, CHR 0xB2, CHR 0xD0, CHR 0xBB,
      CHR 0xD0, CHR 0xB5, CHR 0xD0, CHR 0xBD]
     @ ''!''"

definition HOMEWORK_VERDICTS :: "(string \<times> string) list" where
  "HOMEWORK_VERDICTS =
     [(''approved'', verdict_approved),
      (''reviewing'', verdict_reviewing),
      (''rejected'', verdict_rejected)]"

section \<open>Validating the answer and reading a homework record\<close>

definition check_response :: "pyval \<Rightarrow> exn + pyval list" where
  "check_response response =
     (case response of
        PDict d \<Rightarrow>
          (if d \<noteq> [] \<and> map_of d ''homeworks'' \<noteq> None \<and> map_of d ''current_date'' \<noteq> None
           then (case dict_get d ''homeworks'' of
                   PList homeworks \<Rightarrow> Inr homeworks
                 | _ \<Rightarrow> Inl (exc IncorrectResponseException bad_response_text))
           else Inl (exc IncorrectResponseException bad_response_text))
      | _ \<Rightarrow> Inl (exc IncorrectResponseException bad_response_text))"

text \<open>
  \<^verbatim>\<open>homework_status not in HOMEWORK_VERDICTS\<close> and \<^verbatim>\<open>HOMEWORK_VERDICTS.get(homework_status)\<close> for
  a hashable key: only a \<^verbatim>\<open>str\<close> can equal a key of the table.
\<close>

definition in_verdicts :: "pyval \<Rightarrow> bool" where
  "in_verdicts v = (case v of PStr s \<Rightarrow> map_of HOMEWORK_VERDICTS s \<noteq> None | _ \<Rightarrow> False)"

definition get_verdict :: "pyval \<Rightarrow> pyval" where
  "get_verdict v =
     (case v of
        PStr s \<Rightarrow> (case map_of HOMEWORK_VERDICTS s of None \<Rightarrow> PNone | Some t \<Rightarrow> PStr t)
      | _ \<Rightarrow> PNone)"

text \<open>
  \<open>parse_status\<close> (lines 110 to 130). A value that is not a dict has no \<^verbatim>\<open>get\<close>
  (\<^verbatim>\<open>AttributeError\<close>); a list or a dict as status cannot be looked up in the table
  (\<^verbatim>\<open>TypeError\<close>).
\<close>

definition parse_status :: "builtins \<Rightarrow> pyval \<Rightarrow> exn + string" where
  "parse_status bi homework =
     (case homework of
        PDict d \<Rightarrow>
          (let homework_name = dict_get d ''homework_name'';
               homework_status = dict_get d ''status''
           in if homework_name = PNone
              then Inl (exc HomeworkMissingException
                          (name_missing_text @ py_str bi homework_name))
              else if \<not> hashable homework_status
              then Inl (exc TypeError (unhashable_type bi homework_status))
              else if \<not> in_verdicts homework_status
              then Inl (exc UnknownStatusException
                          (unknown_status_text @ py_str bi homework_status))
              else Inr (status_changed_text @ [CHR 0x22] @ py_str bi homework_name
                          @ [CHR 0x22] @ ''. '' @ py_str bi (get_verdict homework_status)))
      | _ \<Rightarrow> Inl (exc AttributeError (no_attribute_get bi homework)))"

section \<open>The outside world and the state of the process\<close>

text \<open>
  Whatever \<^verbatim>\<open>requests.get\<close> does: it raises, or it returns a response with a status code whose
  body \<^verbatim>\<open>response.json()\<close> decodes or refuses to decode.
\<close>

datatype json_outcome = Json pyval | Json_raises exn

datatype http_outcome = Get_raises exn | Get_returns nat json_outcome

text \<open>
  One pass of the loop sees the outside world through a \<open>cycle\<close>: the clock readings
  \<^verbatim>\<open>int(time.time())\<close> at lines 175, 72, 187 and 159, the outcome of \<^verbatim>\<open>requests.get\<close> for
  the \<^verbatim>\<open>from_date\<close> it is given, and the outcome of \<^verbatim>\<open>bot.send_message\<close> for a text (\<open>None\<close>:
  delivered; \<open>Some e\<close>: it raises \<open>e\<close> and nothing is delivered). At most one message is
  sent in a pass.
\<close>

record cycle =
  clock_check :: int
  clock_fetch :: int
  clock_advance :: int
  clock_error :: int
  requests_get :: "int \<Rightarrow> http_outcome"
  bot_send_message :: "string \<Rightarrow> exn option"

text \<open>
  The mutable state: the two locals of \<open>main\<close>, the module's dictionary \<^verbatim>\<open>errors_occured\<close>,
  and the messages delivered to the chat so far, oldest first.
\<close>

record state =
  current_timestamp :: int
  cache_cleared :: int
  errors_occured :: "string \<rightharpoonup> int"
  chat :: "string list"

record config =
  PRACTICUM_TOKEN :: "string option"
  TELEGRAM_TOKEN :: "string option"
  TELEGRAM_CHAT_ID :: "string option"

section \<open>The functions of the module\<close>

text \<open>\<open>send_message\<close> (lines 47 to 61): any failure of the bot becomes a \<^verbatim>\<open>TelegramAPIException\<close>.\<close>

definition send_message :: "cycle \<Rightarrow> string \<Rightarrow> state \<Rightarrow> exn option \<times> state" where
  "send_message c message st =
     (case bot_send_message c message of
        None \<Rightarrow> (None, st\<lparr>chat := chat st @ [message]\<rparr>)
      | Some error \<Rightarrow>
          (Some (exc TelegramAPIException (send_failed_text @ exc_str error)), st))"

text \<open>
  The two \<^verbatim>\<open>except\<close> clauses of \<open>get_api_answer\<close> (lines 79 to 86), applied to an exception
  raised in its \<^verbatim>\<open>try\<close> block.
\<close>

definition api_failure :: "exn \<Rightarrow> exn" where
  "api_failure error =
     (if issubclass (exc_type error) HTTPError
         \<or> issubclass (exc_type error) ConnectionRefusedError
      then exc HTTPError (unavailable_text_1 @ ENDPOINT @ unavailable_text_2 @ exc_str error)
      else exc Exception (request_failed_text @ exc_str error))"

text \<open>
  \<open>get_api_answer\<close> (lines 64 to 86). A cursor of \<open>0\<close> is falsy and replaced by the clock;
  a status other than 200 raises an \<^verbatim>\<open>HTTPError\<close> without arguments, whose \<^verbatim>\<open>str\<close> is empty.
\<close>

definition get_api_answer :: "cycle \<Rightarrow> int \<Rightarrow> exn + pyval" where
  "get_api_answer c current_timestamp' =
     (let timestamp = (if current_timestamp' = 0 then clock_fetch c else current_timestamp')
      in case requests_get c timestamp of
           Get_raises error \<Rightarrow> Inl (api_failure error)
         | Get_returns status_code body \<Rightarrow>
             (if status_code = 200
              then (case body of
                      Json v \<Rightarrow> Inr v
                    | Json_raises error \<Rightarrow> Inl (api_failure error))
              else Inl (api_failure (exc HTTPError []))))"

text \<open>\<open>check_tokens\<close> (lines 133 to 146): \<^verbatim>\<open>all\<close> asks every variable to be set and non-empty.\<close>

definition truthy :: "string option \<Rightarrow> bool" where
  "truthy v = (case v of None \<Rightarrow> False | Some s \<Rightarrow> s \<noteq> [])"

definition check_tokens :: "config \<Rightarrow> bool" where
  "check_tokens cfg =
     (truthy (PRACTICUM_TOKEN cfg) \<and> truthy (TELEGRAM_TOKEN cfg) \<and> truthy (TELEGRAM_CHAT_ID cfg))"

text \<open>
  \<open>handle_error\<close> (lines 149 to 161). \<^verbatim>\<open>if not error\<close> holds when the message has no entry
  and also when its entry is \<open>0\<close>. The entry is written before the warning is sent, and
  stays when sending raises.
\<close>

definition handle_error :: "cycle \<Rightarrow> exn \<Rightarrow> state \<Rightarrow> exn option \<times> state" where
  "handle_error c message st =
     (if exc_type message = TelegramAPIException then (None, st)
      else
        (let message' = exc_str message;
             error = errors_occured st message'
         in if (case error of None \<Rightarrow> True | Some t \<Rightarrow> t = 0)
            then send_message c (''[WARNING] '' @ message')
                   (st\<lparr>errors_occured := (errors_occured st)(message' \<mapsto> clock_error c)\<rparr>)
            else (None, st)))"

text \<open>
  The \<^verbatim>\<open>try\<close> block of the loop (lines 175 to 187): the exception it raises, if any, and the
  state it leaves.
\<close>

definition try_block :: "builtins \<Rightarrow> cycle \<Rightarrow> state \<Rightarrow> exn option \<times> state" where
  "try_block bi c st =
     (let st1 = (if clock_check c - cache_cleared st > ERROR_CACHE_LIFETIME
                 then st\<lparr>errors_occured := Map.empty\<rparr> else st)
      in case get_api_answer c (current_timestamp st1) of
           Inl error \<Rightarrow> (Some error, st1)
         | Inr response \<Rightarrow>
             (case check_response response of
                Inl error \<Rightarrow> (Some error, st1)
              | Inr homeworks \<Rightarrow>
                  (case homeworks of
                     [] \<Rightarrow> (None, st1\<lparr>current_timestamp := clock_advance c\<rparr>)
                   | homework # _ \<Rightarrow>
                       (case parse_status bi homework of
                          Inl error \<Rightarrow> (Some error, st1)
                        | Inr message \<Rightarrow>
                            (case send_message c message st1 of
                               (Some error, st2) \<Rightarrow> (Some error, st2)
                             | (None, st2) \<Rightarrow>
                                 (None, st2\<lparr>current_timestamp := clock_advance c\<rparr>))))))"

text \<open>
  One pass of the loop (lines 174 to 191): the \<^verbatim>\<open>try\<close> block, then \<open>handle_error\<close> on what
  it raised. An exception raised by \<open>handle_error\<close> itself is raised inside the \<^verbatim>\<open>except\<close>
  clause: after the \<^verbatim>\<open>finally\<close> clause has slept it leaves the loop. The sleep changes nothing
  of the state.
\<close>

definition iteration :: "builtins \<Rightarrow> cycle \<Rightarrow> state \<Rightarrow> exn option \<times> state" where
  "iteration bi c st =
     (case try_block bi c st of
        (None, st') \<Rightarrow> (None, st')
      | (Some error, st') \<Rightarrow> handle_error c error st')"

text \<open>
  The \<^verbatim>\<open>while True\<close> loop, run through the cycles the world supplies: it is still \<open>Running\<close>
  when they are used up, unless an exception left it before (\<open>Uncaught\<close>) or \<open>main\<close>
  refused to start (\<open>SystemExit\<close>).
\<close>

datatype outcome = SystemExit string | Uncaught exn state | Running state

fun poll_loop :: "builtins \<Rightarrow> cycle list \<Rightarrow> state \<Rightarrow> outcome" where
  "poll_loop bi [] st = Running st"
| "poll_loop bi (c # cs) st =
     (case iteration bi c st of
        (None, st') \<Rightarrow> poll_loop bi cs st'
      | (Some error, st') \<Rightarrow> Uncaught error st')"

text \<open>
  \<open>main\<close> (lines 163 to 191); \<open>clock_start\<close> is the clock reading at line 170, and the
  dictionary is empty when the module has just been loaded.
\<close>

definition main :: "builtins \<Rightarrow> config \<Rightarrow> int \<Rightarrow> cycle list \<Rightarrow> outcome" where
  "main bi cfg clock_start cycles =
     (if \<not> check_tokens cfg then SystemExit fatal_text
      else poll_loop bi cycles
             \<lparr>current_timestamp = clock_start, cache_cleared = clock_start,
              errors_occured = Map.empty, chat = []\<rparr>)"

section \<open>The validator's contract in the specification's words\<close>

text \<open>
  The specification calls an answer valid when it is a non-empty keyed structure that has
  an items key (\<^verbatim>\<open>homeworks\<close>) whose value is a sequence and a fetched-at key
  (\<^verbatim>\<open>current_date\<close>); \<open>spec_items\<close> is the sequence under the items key. Both follow the
  specification, not the code.
\<close>

definition spec_valid_response :: "pyval \<Rightarrow> bool" where
  "spec_valid_response r =
     (case r of
        PDict d \<Rightarrow>
          d \<noteq> []
          \<and> (case map_of d ''homeworks'' of Some (PList items) \<Rightarrow> True | _ \<Rightarrow> False)
          \<and> map_of d ''current_date'' \<noteq> None
      | _ \<Rightarrow> False)"

definition spec_items :: "pyval \<Rightarrow> pyval list" where
  "spec_items r =
     (case r of
        PDict d \<Rightarrow> (case map_of d ''homeworks'' of Some (PList items) \<Rightarrow> items | _ \<Rightarrow> [])
      | _ \<Rightarrow> [])"

section \<open>Concrete worlds\<close>

text \<open>
  Inputs for the closed statements below. \<open>plain_builtins\<close> is one instance of the
  interpreter's texts; no statement depends on what it returns. \<open>world t answer send\<close> is a
  pass of the loop in which every clock reading is \<open>t\<close>, the endpoint gives \<open>answer\<close> and
  the bot behaves as \<open>send\<close>.
\<close>

definition plain_builtins :: builtins where
  "plain_builtins =
     \<lparr>format_value = (\<lambda>v. []), no_attribute_get = (\<lambda>v. []), unhashable_type = (\<lambda>v. [])\<rparr>"

definition tokens_set :: config where
  "tokens_set =
     \<lparr>PRACTICUM_TOKEN = Some ''p'', TELEGRAM_TOKEN = Some ''t'', TELEGRAM_CHAT_ID = Some ''1''\<rparr>"

definition bot_delivers :: "string \<Rightarrow> exn option" where
  "bot_delivers message = None"

definition bot_fails :: "string \<Rightarrow> exn option" where
  "bot_fails message = Some (exc (Subclass ''NetworkError'' Exception) ''timed out'')"

definition world :: "int \<Rightarrow> http_outcome \<Rightarrow> (string \<Rightarrow> exn option) \<Rightarrow> cycle" where
  "world t answer send =
     \<lparr>clock_check = t, clock_fetch = t, clock_advance = t, clock_error = t,
      requests_get = (\<lambda>from_date. answer), bot_send_message = send\<rparr>"

definition endpoint_down :: http_outcome where
  "endpoint_down =
     Get_returns 503 (Json_raises (exc (Subclass ''JSONDecodeError'' Exception) []))"

definition no_news :: http_outcome where
  "no_news =
     Get_returns 200 (Json (PDict [(''homeworks'', PList []), (''current_date'', PInt 1000)]))"

definition empty_answer :: http_outcome where
  "empty_answer = Get_returns 200 (Json (PDict []))"

definition proj1_item :: pyval where
  "proj1_item = PDict [(''homework_name'', PStr ''Proj1''), (''status'', PStr ''approved'')]"

definition proj1_answer :: pyval where
  "proj1_answer = PDict [(''homeworks'', PList [proj1_item]), (''current_date'', PInt 1000)]"

definition proj1_news :: http_outcome where
  "proj1_news = Get_returns 200 (Json proj1_answer)"

definition lost_item :: pyval where
  "lost_item = PDict [(''homework_name'', PStr ''Proj1''), (''status'', PStr ''lost'')]"

definition lost_news :: http_outcome where
  "lost_news =
     Get_returns 200
       (Json (PDict [(''homeworks'', PList [lost_item]), (''current_date'', PInt 1000)]))"

definition down_message :: string where
  "down_message = unavailable_text_1 @ ENDPOINT @ unavailable_text_2"

definition started :: state where
  "started =
     \<lparr>current_timestamp = 1000, cache_cleared = 1000, errors_occured = Map.empty, chat = []\<rparr>"

section \<open>The response validator\<close>

text \<open>
  Claim C6. For every input value, \<open>check_response\<close> raises \<^verbatim>\<open>IncorrectResponseException\<close>
  exactly when the value is not a non-empty dict that has the key \<^verbatim>\<open>homeworks\<close> bound to a
  list and the key \<^verbatim>\<open>current_date\<close>; for every valid value it returns the list under
  \<^verbatim>\<open>homeworks\<close> as it stands. The function is pure, so its argument is not changed.
\<close>

theorem check_response_contract:
  "check_response r =
     (if spec_valid_response r then Inr (spec_items r)
      else Inl (exc IncorrectResponseException bad_response_text))"
  by (simp add: check_response_def spec_valid_response_def spec_items_def dict_get_def
      split: pyval.splits option.splits)

theorem check_response_contract_witness:
  "spec_valid_response proj1_answer
   \<and> check_response proj1_answer = Inr [proj1_item]
   \<and> \<not> spec_valid_response (PDict [])
   \<and> check_response (PDict []) = Inl (exc IncorrectResponseException bad_response_text)
   \<and> \<not> spec_valid_response (PDict [(''homeworks'', PStr ''none''), (''current_date'', PInt 1)])
   \<and> check_response (PDict [(''homeworks'', PStr ''none''), (''current_date'', PInt 1)]) =
        Inl (exc IncorrectResponseException bad_response_text)"
  using check_response_contract [of proj1_answer]
    check_response_contract [of "PDict []"]
    check_response_contract [of "PDict [(''homeworks'', PStr ''none''), (''current_date'', PInt 1)]"]
  by (simp add: spec_valid_response_def spec_items_def proj1_answer_def)

section \<open>The status interpreter\<close>

text \<open>
  Claim C7. For every homework record whose \<^verbatim>\<open>homework_name\<close> is absent or \<^verbatim>\<open>None\<close>,
  \<open>parse_status\<close> raises \<^verbatim>\<open>HomeworkMissingException\<close>, whatever the record's status is: the
  name is tested before the status.
\<close>

theorem parse_status_missing_name:
  assumes "map_of d ''homework_name'' = None \<or> map_of d ''homework_name'' = Some PNone"
  shows "parse_status bi (PDict d) =
           Inl (exc HomeworkMissingException (name_missing_text @ ''None''))"
  using assms by (auto simp: parse_status_def dict_get_def py_str_def)

theorem parse_status_missing_name_witness:
  "map_of [(''status'', PStr ''approved'')] ''homework_name'' = None
   \<and> parse_status plain_builtins (PDict [(''status'', PStr ''approved'')]) =
        Inl (exc HomeworkMissingException (name_missing_text @ ''None''))
   \<and> map_of [(''homework_name'', PNone), (''status'', PStr ''lost'')] ''homework_name''
        = Some PNone
   \<and> parse_status plain_builtins (PDict [(''homework_name'', PNone), (''status'', PStr ''lost'')]) =
        Inl (exc HomeworkMissingException (name_missing_text @ ''None''))"
  using parse_status_missing_name [of "[(''status'', PStr ''approved'')]" plain_builtins]
    parse_status_missing_name
      [of "[(''homework_name'', PNone), (''status'', PStr ''lost'')]" plain_builtins]
  by simp

text \<open>
  Claim C8, as the specification states it: for the record with name \<^verbatim>\<open>Proj1\<close> and status
  \<^verbatim>\<open>approved\<close> the result is the English sentence \<^verbatim>\<open>Changed status of "Proj1". \<close> followed by
  the verdict. The code does not return that string: the sentence before the verdict is
  the Russian one of line 130.
\<close>

theorem parse_status_english_counterexample:
  "parse_status plain_builtins proj1_item \<noteq>
     Inr (''Changed status of '' @ [CHR 0x22] @ ''Proj1'' @ [CHR 0x22] @ ''. ''
            @ verdict_approved)"
  by (simp add: parse_status_def proj1_item_def dict_get_def py_str_def hashable_def
      in_verdicts_def get_verdict_def HOMEWORK_VERDICTS_def Let_def status_changed_text_def)

text \<open>
  Claim C8, amended. For the record with name \<^verbatim>\<open>Proj1\<close> and status \<^verbatim>\<open>approved\<close>,
  \<open>parse_status\<close> returns the words of line 130 (\<open>status_changed_text\<close>), then \<^verbatim>\<open>"Proj1". \<close>,
  then the verdict of \<^verbatim>\<open>approved\<close>; in general, for a record whose name is a string and whose
  status is a key of \<^verbatim>\<open>HOMEWORK_VERDICTS\<close>, it returns those words, the name between
  quotation marks, a full stop, a space and the verdict the table gives for the status.
\<close>

theorem parse_status_text:
  "parse_status bi proj1_item =
     Inr (status_changed_text @ [CHR 0x22] @ ''Proj1'' @ [CHR 0x22] @ ''. '' @ verdict_approved)
   \<and> (dict_get d ''homework_name'' = PStr name
        \<and> dict_get d ''status'' = PStr status
        \<and> map_of HOMEWORK_VERDICTS status = Some verdict \<longrightarrow>
      parse_status bi (PDict d) =
        Inr (status_changed_text @ [CHR 0x22] @ name @ [CHR 0x22] @ ''. '' @ verdict))"
  by (simp add: parse_status_def proj1_item_def dict_get_def py_str_def hashable_def
      in_verdicts_def get_verdict_def HOMEWORK_VERDICTS_def Let_def)

theorem parse_status_text_witness:
  "dict_get [(''status'', PStr ''reviewing''), (''homework_name'', PStr ''Proj2'')]
       ''homework_name'' = PStr ''Proj2''
   \<and> dict_get [(''status'', PStr ''reviewing''), (''homework_name'', PStr ''Proj2'')]
       ''status'' = PStr ''reviewing''
   \<and> map_of HOMEWORK_VERDICTS ''reviewing'' = Some verdict_reviewing
   \<and> parse_status plain_builtins
        (PDict [(''status'', PStr ''reviewing''), (''homework_name'', PStr ''Proj2'')]) =
        Inr (status_changed_text @ [CHR 0x22] @ ''Proj2'' @ [CHR 0x22] @ ''. ''
               @ verdict_reviewing)"
  using parse_status_text
    [of plain_builtins "[(''status'', PStr ''reviewing''), (''homework_name'', PStr ''Proj2'')]"
      "''Proj2''" "''reviewing''" verdict_reviewing]
  by (simp add: dict_get_def HOMEWORK_VERDICTS_def)

section \<open>The error deduplicator\<close>

text \<open>
  Claim C5. A \<^verbatim>\<open>TelegramAPIException\<close> handed to \<open>handle_error\<close> is dropped: nothing is
  written to \<^verbatim>\<open>errors_occured\<close>, the bot is not called, and no exception is raised, so the
  whole state, chat included, is as before.
\<close>

theorem handle_error_drops_delivery_errors:
  "exc_type e = TelegramAPIException \<Longrightarrow> handle_error c e st = (None, st)"
  by (simp add: handle_error_def)

theorem handle_error_drops_delivery_errors_witness:
  "exc_type (exc TelegramAPIException (send_failed_text @ ''timed out'')) = TelegramAPIException
   \<and> handle_error (world 1600 endpoint_down bot_delivers)
        (exc TelegramAPIException (send_failed_text @ ''timed out'')) started = (None, started)"
  using handle_error_drops_delivery_errors
    [of "exc TelegramAPIException (send_failed_text @ ''timed out'')"
      "world 1600 endpoint_down bot_delivers" started]
  by (simp add: exc_def)

text \<open>
  Claim C9. The test at line 153 compares the exception's type with \<^verbatim>\<open>TelegramAPIException\<close>
  for equality. An exception of a proper subclass is treated like any other error (here:
  like a plain \<^verbatim>\<open>Exception\<close> with the same text): when its text has no entry it is recorded
  with the clock reading and the warning is handed to \<open>send_message\<close>.
\<close>

theorem handle_error_subclass_not_dropped:
  assumes "issubclass (exc_type e) TelegramAPIException"
    and "exc_type e \<noteq> TelegramAPIException"
  shows "handle_error c e st = handle_error c (exc Exception (exc_str e)) st
     \<and> (errors_occured st (exc_str e) = None \<longrightarrow>
          handle_error c e st =
            send_message c (''[WARNING] '' @ exc_str e)
              (st\<lparr>errors_occured := (errors_occured st)(exc_str e \<mapsto> clock_error c)\<rparr>))"
  using assms by (simp add: handle_error_def exc_def Let_def)

theorem handle_error_subclass_not_dropped_witness:
  "issubclass (exc_type (exc (Subclass ''RetryAfter'' TelegramAPIException) ''flood''))
      TelegramAPIException
   \<and> exc_type (exc (Subclass ''RetryAfter'' TelegramAPIException) ''flood'')
        \<noteq> TelegramAPIException
   \<and> errors_occured started ''flood'' = None
   \<and> handle_error (world 1600 endpoint_down bot_delivers)
        (exc (Subclass ''RetryAfter'' TelegramAPIException) ''flood'') started =
        (None, \<lparr>current_timestamp = 1000, cache_cleared = 1000,
                errors_occured = [''flood'' \<mapsto> 1600], chat = [''[WARNING] flood'']\<rparr>)"
  using handle_error_subclass_not_dropped
    [of "exc (Subclass ''RetryAfter'' TelegramAPIException) ''flood''"
      "world 1600 endpoint_down bot_delivers" started, THEN conjunct2]
  by (simp add: exc_def started_def world_def bot_delivers_def send_message_def)

text \<open>
  Claim C10. \<open>handle_error\<close> writes the entry for a new message before it sends the warning.
  When the bot fails on the warning, \<open>handle_error\<close> raises \<^verbatim>\<open>TelegramAPIException\<close>, the entry
  stays and nothing reaches the chat; a later error with the same text, handed to
  \<open>handle_error\<close> on that state, is suppressed whatever the bot would do. The clock reading
  written is assumed not to be \<open>0\<close>, which \<^verbatim>\<open>if not error\<close> takes for no entry.
\<close>

theorem handle_error_entry_survives_failed_send:
  assumes "exc_type e \<noteq> TelegramAPIException"
    and "errors_occured st (exc_str e) = None"
    and "bot_send_message c (''[WARNING] '' @ exc_str e) = Some err"
    and "clock_error c \<noteq> 0"
    and "exc_str e' = exc_str e"
  shows "handle_error c e st =
           (Some (exc TelegramAPIException (send_failed_text @ exc_str err)),
            st\<lparr>errors_occured := (errors_occured st)(exc_str e \<mapsto> clock_error c)\<rparr>)
     \<and> handle_error c' e'
           (st\<lparr>errors_occured := (errors_occured st)(exc_str e \<mapsto> clock_error c)\<rparr>) =
           (None, st\<lparr>errors_occured := (errors_occured st)(exc_str e \<mapsto> clock_error c)\<rparr>)"
  using assms by (simp add: handle_error_def send_message_def Let_def)

theorem handle_error_entry_survives_failed_send_witness:
  "exc_type (exc HTTPError down_message) \<noteq> TelegramAPIException
   \<and> errors_occured started (exc_str (exc HTTPError down_message)) = None
   \<and> bot_send_message (world 1600 endpoint_down bot_fails)
        (''[WARNING] '' @ exc_str (exc HTTPError down_message)) =
        Some (exc (Subclass ''NetworkError'' Exception) ''timed out'')
   \<and> clock_error (world 1600 endpoint_down bot_fails) \<noteq> 0
   \<and> handle_error (world 1600 endpoint_down bot_fails) (exc HTTPError down_message) started =
        (Some (exc TelegramAPIException (send_failed_text @ ''timed out'')),
         \<lparr>current_timestamp = 1000, cache_cleared = 1000,
          errors_occured = [down_message \<mapsto> 1600], chat = []\<rparr>)
   \<and> handle_error (world 2200 endpoint_down bot_delivers) (exc HTTPError down_message)
        \<lparr>current_timestamp = 1000, cache_cleared = 1000,
         errors_occured = [down_message \<mapsto> 1600], chat = []\<rparr> =
        (None, \<lparr>current_timestamp = 1000, cache_cleared = 1000,
                errors_occured = [down_message \<mapsto> 1600], chat = []\<rparr>)"
  using handle_error_entry_survives_failed_send
    [of "exc HTTPError down_message" started "world 1600 endpoint_down bot_fails"
      "exc (Subclass ''NetworkError'' Exception) ''timed out''" "exc HTTPError down_message"
      "world 2200 endpoint_down bot_delivers"]
  by (simp add: exc_def started_def world_def bot_fails_def)

section \<open>The poll loop\<close>

lemma handle_error_cursor:
  "current_timestamp (snd (handle_error c e st)) = current_timestamp st"
  by (simp add: handle_error_def send_message_def Let_def split: option.splits)

text \<open>
  Claim C4. The cursor \<^verbatim>\<open>current_timestamp\<close> after a pass of the loop is the cursor before it
  when fetching, validating, interpreting or sending raised, and the clock reading of
  line 187 when the pass went through, also when the list of homeworks was empty.
\<close>

theorem cursor_moves_only_after_success:
  "(get_api_answer c (current_timestamp st) = Inl e \<longrightarrow>
      current_timestamp (snd (iteration bi c st)) = current_timestamp st)
   \<and> (get_api_answer c (current_timestamp st) = Inr response
        \<and> check_response response = Inl e \<longrightarrow>
      current_timestamp (snd (iteration bi c st)) = current_timestamp st)
   \<and> (get_api_answer c (current_timestamp st) = Inr response
        \<and> check_response response = Inr (homework # rest)
        \<and> parse_status bi homework = Inl e \<longrightarrow>
      current_timestamp (snd (iteration bi c st)) = current_timestamp st)
   \<and> (get_api_answer c (current_timestamp st) = Inr response
        \<and> check_response response = Inr (homework # rest)
        \<and> parse_status bi homework = Inr message
        \<and> bot_send_message c message = Some e \<longrightarrow>
      current_timestamp (snd (iteration bi c st)) = current_timestamp st)
   \<and> (get_api_answer c (current_timestamp st) = Inr response
        \<and> check_response response = Inr (homework # rest)
        \<and> parse_status bi homework = Inr message
        \<and> bot_send_message c message = None \<longrightarrow>
      current_timestamp (snd (iteration bi c st)) = clock_advance c)
   \<and> (get_api_answer c (current_timestamp st) = Inr response
        \<and> check_response response = Inr [] \<longrightarrow>
      current_timestamp (snd (iteration bi c st)) = clock_advance c)"
  by (simp add: iteration_def try_block_def send_message_def handle_error_cursor Let_def)

lemma get_api_answer_down:
  "get_api_answer (world t endpoint_down send) 1000 = Inl (exc HTTPError down_message)"
  by (simp add: get_api_answer_def world_def endpoint_down_def api_failure_def exc_def
      down_message_def)

lemma get_api_answer_200:
  "get_api_answer (world t (Get_returns 200 (Json v)) send) 1000 = Inr v"
  by (simp add: get_api_answer_def world_def)

lemma parse_status_proj1_item:
  "parse_status bi proj1_item =
     Inr (status_changed_text @ [CHR 0x22] @ ''Proj1'' @ [CHR 0x22] @ ''. '' @ verdict_approved)"
  by (simp add: parse_status_def proj1_item_def dict_get_def py_str_def hashable_def
      in_verdicts_def get_verdict_def HOMEWORK_VERDICTS_def Let_def)

lemma parse_status_lost_item:
  "parse_status bi lost_item = Inl (exc UnknownStatusException (unknown_status_text @ ''lost''))"
  by (simp add: parse_status_def lost_item_def dict_get_def py_str_def hashable_def
      in_verdicts_def HOMEWORK_VERDICTS_def Let_def)

theorem cursor_moves_only_after_success_witness:
  "current_timestamp (snd (iteration plain_builtins (world 1600 endpoint_down bot_delivers) started))
     = 1000
   \<and> current_timestamp (snd (iteration plain_builtins (world 1600 empty_answer bot_delivers) started))
     = 1000
   \<and> current_timestamp (snd (iteration plain_builtins (world 1600 lost_news bot_delivers) started))
     = 1000
   \<and> current_timestamp (snd (iteration plain_builtins (world 1600 proj1_news bot_fails) started))
     = 1000
   \<and> current_timestamp (snd (iteration plain_builtins (world 1600 proj1_news bot_delivers) started))
     = 1600
   \<and> current_timestamp (snd (iteration plain_builtins (world 1600 no_news bot_delivers) started))
     = 1600"
proof -
  have cursor: "current_timestamp started = 1000"
    by (simp add: started_def)
  have bad: "check_response (PDict []) = Inl (exc IncorrectResponseException bad_response_text)"
    by (simp add: check_response_def)
  have lost: "check_response (PDict [(''homeworks'', PList [lost_item]), (''current_date'', PInt 1000)])
      = Inr [lost_item]"
    by (simp add: check_response_def dict_get_def)
  have proj1: "check_response proj1_answer = Inr [proj1_item]"
    by (simp add: check_response_def dict_get_def proj1_answer_def)
  have none: "check_response (PDict [(''homeworks'', PList []), (''current_date'', PInt 1000)]) = Inr []"
    by (simp add: check_response_def dict_get_def)
  have fails: "bot_send_message (world 1600 answer bot_fails) m
      = Some (exc (Subclass ''NetworkError'' Exception) ''timed out'')" for answer m
    by (simp add: world_def bot_fails_def)
  have delivers: "bot_send_message (world 1600 answer bot_delivers) m = None" for answer m
    by (simp add: world_def bot_delivers_def)
  have clock: "clock_advance (world 1600 answer send) = 1600" for answer send
    by (simp add: world_def)
  show ?thesis
    using cursor_moves_only_after_success
        [where c = "world 1600 endpoint_down bot_delivers" and st = started
          and bi = plain_builtins and e = "exc HTTPError down_message"]
      cursor_moves_only_after_success
        [where c = "world 1600 empty_answer bot_delivers" and st = started
          and bi = plain_builtins and response = "PDict []"
          and e = "exc IncorrectResponseException bad_response_text"]
      cursor_moves_only_after_success
        [where c = "world 1600 lost_news bot_delivers" and st = started
          and bi = plain_builtins and homework = lost_item and rest = "[]"
          and response = "PDict [(''homeworks'', PList [lost_item]), (''current_date'', PInt 1000)]"
          and e = "exc UnknownStatusException (unknown_status_text @ ''lost'')"]
      cursor_moves_only_after_success
        [where c = "world 1600 proj1_news bot_fails" and st = started
          and bi = plain_builtins and homework = proj1_item and rest = "[]"
          and response = proj1_answer
          and message = "status_changed_text @ [CHR 0x22] @ ''Proj1'' @ [CHR 0x22] @ ''. ''
                           @ verdict_approved"
          and e = "exc (Subclass ''NetworkError'' Exception) ''timed out''"]
      cursor_moves_only_after_success
        [where c = "world 1600 proj1_news bot_delivers" and st = started
          and bi = plain_builtins and homework = proj1_item and rest = "[]"
          and response = proj1_answer
          and message = "status_changed_text @ [CHR 0x22] @ ''Proj1'' @ [CHR 0x22] @ ''. ''
                           @ verdict_approved"]
      cursor_moves_only_after_success
        [where c = "world 1600 no_news bot_delivers" and st = started
          and bi = plain_builtins
          and response = "PDict [(''homeworks'', PList []), (''current_date'', PInt 1000)]"]
    by (simp add: cursor bad lost proj1 none fails delivers clock get_api_answer_down
        get_api_answer_200 parse_status_proj1_item parse_status_lost_item
        empty_answer_def lost_news_def proj1_news_def no_news_def)
qed

text \<open>
  What can leave a pass of the loop: only the \<^verbatim>\<open>TelegramAPIException\<close> that \<open>send_message\<close>
  raises inside \<open>handle_error\<close>. While the bot delivers, the loop keeps running.
\<close>

lemma iteration_raises_only_delivery_error:
  "iteration bi c st = (Some x, st') \<Longrightarrow> exc_type x = TelegramAPIException"
  by (auto simp: iteration_def handle_error_def send_message_def exc_def Let_def
      split: prod.splits option.splits if_splits)

lemma iteration_bot_delivers:
  assumes "\<And>m. bot_send_message c m = None"
  shows "fst (iteration bi c st) = None"
  using assms
  by (auto simp: iteration_def try_block_def handle_error_def send_message_def Let_def
      split: sum.splits list.splits option.splits prod.splits)

lemma poll_loop_bot_delivers:
  assumes "list_all (\<lambda>c. \<forall>m. bot_send_message c m = None) cs"
  shows "\<exists>st'. poll_loop bi cs st = Running st'"
  using assms
proof (induction cs arbitrary: st)
  case Nil
  then show ?case by simp
next
  case (Cons c cs)
  then have "fst (iteration bi c st) = None"
    by (simp add: iteration_bot_delivers)
  then obtain st1 where "iteration bi c st = (None, st1)"
    by (cases "iteration bi c st") auto
  with Cons show ?case by simp
qed

lemma poll_loop_bot_delivers_witness:
  "list_all (\<lambda>c. \<forall>m. bot_send_message c m = None)
     [world 1600 endpoint_down bot_delivers, world 2200 no_news bot_delivers]
   \<and> (\<exists>st'. poll_loop plain_builtins
               [world 1600 endpoint_down bot_delivers, world 2200 no_news bot_delivers] started
             = Running st')"
proof -
  have "list_all (\<lambda>c. \<forall>m. bot_send_message c m = None)
     [world 1600 endpoint_down bot_delivers, world 2200 no_news bot_delivers]"
    by (simp add: world_def bot_delivers_def)
  then show ?thesis
    using poll_loop_bot_delivers
      [of "[world 1600 endpoint_down bot_delivers, world 2200 no_news bot_delivers]"
        plain_builtins started]
    by simp
qed

lemma iteration_raises_only_delivery_error_witness:
  "iteration plain_builtins (world 1600 endpoint_down bot_fails) started =
     (Some (exc TelegramAPIException (send_failed_text @ ''timed out'')),
      \<lparr>current_timestamp = 1000, cache_cleared = 1000,
       errors_occured = [down_message \<mapsto> 1600], chat = []\<rparr>)
   \<and> exc_type (exc TelegramAPIException (send_failed_text @ ''timed out''))
       = TelegramAPIException"
proof -
  have run: "iteration plain_builtins (world 1600 endpoint_down bot_fails) started =
     (Some (exc TelegramAPIException (send_failed_text @ ''timed out'')),
      \<lparr>current_timestamp = 1000, cache_cleared = 1000,
       errors_occured = [down_message \<mapsto> 1600], chat = []\<rparr>)"
    by (simp add: started_def world_def endpoint_down_def bot_fails_def iteration_def
        try_block_def get_api_answer_def api_failure_def handle_error_def send_message_def
        exc_def ERROR_CACHE_LIFETIME_def down_message_def Let_def)
  from iteration_raises_only_delivery_error [OF run] run show ?thesis
    by simp
qed

text \<open>
  Claim C1. No exception raised in a pass of the loop leaves the process, also when
  sending the warning itself fails. The code does otherwise: the started bot finds the
  endpoint down at 1600 and the bot fails on the warning; \<open>send_message\<close> raises inside
  \<open>handle_error\<close>, that is inside the \<^verbatim>\<open>except\<close> clause, and \<open>main\<close> ends with the
  \<^verbatim>\<open>TelegramAPIException\<close> uncaught. The pass of 2200 is never run.
\<close>

theorem main_ends_when_warning_fails:
  "main plain_builtins tokens_set 1000
     [world 1600 endpoint_down bot_fails, world 2200 no_news bot_delivers] =
   Uncaught (exc TelegramAPIException (send_failed_text @ ''timed out''))
     \<lparr>current_timestamp = 1000, cache_cleared = 1000,
      errors_occured = [down_message \<mapsto> 1600], chat = []\<rparr>"
  by (simp add: main_def check_tokens_def truthy_def tokens_set_def world_def endpoint_down_def
      bot_fails_def iteration_def try_block_def get_api_answer_def api_failure_def
      handle_error_def send_message_def exc_def ERROR_CACHE_LIFETIME_def down_message_def
      Let_def)

text \<open>
  The variable \<^verbatim>\<open>cache_cleared\<close> is assigned once, at line 171; no pass of the loop changes
  it, and a pass empties the dictionary whenever its clock reading is more than a day
  after that first value.
\<close>

lemma iteration_keeps_cache_cleared:
  "cache_cleared (snd (iteration bi c st)) = cache_cleared st"
  by (auto simp: iteration_def try_block_def handle_error_def send_message_def Let_def
      split: sum.splits list.splits option.splits prod.splits)

text \<open>
  Claim C2. When more than 24 hours have passed since the cache epoch, the cache is
  cleared and the epoch is reset, so that the next clearing waits a full day again. The
  code clears the cache but never resets the epoch: the bot starts at 1000, the pass of
  87401 (endpoint down) clears the cache and records the error, and the pass of 88001,
  ten minutes later and with nothing new, clears the cache again; \<^verbatim>\<open>cache_cleared\<close> is
  still 1000.
\<close>

theorem main_clears_cache_every_pass_after_a_day:
  "main plain_builtins tokens_set 1000 [world 87401 endpoint_down bot_delivers] =
   Running
     \<lparr>current_timestamp = 1000, cache_cleared = 1000,
      errors_occured = [down_message \<mapsto> 87401], chat = [''[WARNING] '' @ down_message]\<rparr>
   \<and> main plain_builtins tokens_set 1000
     [world 87401 endpoint_down bot_delivers, world 88001 no_news bot_delivers] =
   Running
     \<lparr>current_timestamp = 88001, cache_cleared = 1000,
      errors_occured = Map.empty, chat = [''[WARNING] '' @ down_message]\<rparr>"
  by (simp add: main_def check_tokens_def truthy_def tokens_set_def world_def endpoint_down_def
      no_news_def bot_delivers_def iteration_def try_block_def get_api_answer_def
      api_failure_def check_response_def dict_get_def handle_error_def send_message_def
      exc_def ERROR_CACHE_LIFETIME_def down_message_def Let_def)

text \<open>
  Without a clearing in between, the second of two equal errors is suppressed: the first
  call records the text and sends the warning, the second call changes nothing. The clock
  reading recorded is taken not to be \<open>0\<close>.
\<close>

lemma handle_error_twice:
  assumes "exc_type e \<noteq> TelegramAPIException"
    and "errors_occured st (exc_str e) = None"
    and "bot_send_message c (''[WARNING] '' @ exc_str e) = None"
    and "clock_error c \<noteq> 0"
  shows "handle_error c e st =
           (None, st\<lparr>errors_occured := (errors_occured st)(exc_str e \<mapsto> clock_error c),
                     chat := chat st @ [''[WARNING] '' @ exc_str e]\<rparr>)
     \<and> handle_error c' e
           (st\<lparr>errors_occured := (errors_occured st)(exc_str e \<mapsto> clock_error c),
               chat := chat st @ [''[WARNING] '' @ exc_str e]\<rparr>) =
           (None, st\<lparr>errors_occured := (errors_occured st)(exc_str e \<mapsto> clock_error c),
                     chat := chat st @ [''[WARNING] '' @ exc_str e]\<rparr>)"
  using assms by (simp add: handle_error_def send_message_def Let_def)

lemma handle_error_twice_witness:
  "exc_type (exc HTTPError down_message) \<noteq> TelegramAPIException
   \<and> errors_occured started (exc_str (exc HTTPError down_message)) = None
   \<and> bot_send_message (world 1600 endpoint_down bot_delivers)
        (''[WARNING] '' @ exc_str (exc HTTPError down_message)) = None
   \<and> clock_error (world 1600 endpoint_down bot_delivers) \<noteq> 0
   \<and> handle_error (world 2200 endpoint_down bot_delivers) (exc HTTPError down_message)
        \<lparr>current_timestamp = 1000, cache_cleared = 1000,
         errors_occured = [down_message \<mapsto> 1600], chat = [''[WARNING] '' @ down_message]\<rparr> =
        (None, \<lparr>current_timestamp = 1000, cache_cleared = 1000,
                errors_occured = [down_message \<mapsto> 1600],
                chat = [''[WARNING] '' @ down_message]\<rparr>)"
  using handle_error_twice
    [of "exc HTTPError down_message" started "world 1600 endpoint_down bot_delivers"
      "world 2200 endpoint_down bot_delivers"]
  by (simp add: exc_def started_def world_def bot_delivers_def)

text \<open>
  Claim C3. The same error message handed to the deduplicator twice within the
  retention window gives exactly one notification. The code does otherwise once the bot
  has run for more than a day: it starts at 1000, the endpoint is down at 87401 and still
  down at 88001, ten minutes later; the pass of 88001 empties the dictionary before it
  fetches, so the same warning is sent a second time.
\<close>

theorem main_repeats_warning_after_a_day:
  "main plain_builtins tokens_set 1000
     [world 87401 endpoint_down bot_delivers, world 88001 endpoint_down bot_delivers] =
   Running
     \<lparr>current_timestamp = 1000, cache_cleared = 1000,
      errors_occured = [down_message \<mapsto> 88001],
      chat = [''[WARNING] '' @ down_message, ''[WARNING] '' @ down_message]\<rparr>"
  by (simp add: main_def check_tokens_def truthy_def tokens_set_def world_def endpoint_down_def
      bot_delivers_def iteration_def try_block_def get_api_answer_def api_failure_def
      handle_error_def send_message_def exc_def ERROR_CACHE_LIFETIME_def down_message_def
      Let_def)

text \<open>
  Within the first day the same two passes give one warning: the entry written at 1600
  is still there at 2200.
\<close>

lemma main_suppresses_repeat_on_first_day:
  "main plain_builtins tokens_set 1000
     [world 1600 endpoint_down bot_delivers, world 2200 endpoint_down bot_delivers] =
   Running
     \<lparr>current_timestamp = 1000, cache_cleared = 1000,
      errors_occured = [down_message \<mapsto> 1600], chat = [''[WARNING] '' @ down_message]\<rparr>"
  by (simp add: main_def check_tokens_def truthy_def tokens_set_def world_def endpoint_down_def
      bot_delivers_def iteration_def try_block_def get_api_answer_def api_failure_def
      handle_error_def send_message_def exc_def ERROR_CACHE_LIFETIME_def down_message_def
      Let_def)

end
